theory Spec2Isabelle
  imports Complex_Main "HOL-Library.Sublist"
begin

section \<open>The skill selection of ui/app.js\<close>

text \<open>
  The page keeps the chosen skills in the module-level array \<open>selectedSkills\<close> and the
  weighted interest string in the value of the hidden form control \<open>interests\<close>.
  The state of the model is these two; the handlers of the page are functions from a
  state to a completion and the state they leave. A handler that throws has still done
  the writes that came before the throw, so the state is returned in both cases.

  Writes that only paint the page (\<open>renderSelectedSkills\<close>, \<open>updateSkillSelectOptions\<close>,
  the class lists of the sections, the two selects that the click on the add button
  puts back to the empty choice and to 3) read the state and never throw; they are
  left out.
\<close>

subsection \<open>Numbers, strings and arrays of the language\<close>

text \<open>
  A level is a Number of the language: a finite value, one of the two infinities, or
  NaN. The finite values are taken from the rationals, which hold every double; the
  two zeros are not told apart, as nothing in the script tells them apart.
\<close>

datatype jsnum = Num rat | Infinity | NegInfinity | NaN

datatype error = RangeError

type_synonym completion = "error option"

text \<open>White space as \<open>trim\<close> and \<open>parseInt\<close> see it, among the code units of a \<open>char\<close>.\<close>

definition isWhiteSpace :: "char \<Rightarrow> bool" where
  "isWhiteSpace c =
     (c = CHR 0x09 \<or> c = CHR 0x0A \<or> c = CHR 0x0B \<or> c = CHR 0x0C \<or> c = CHR 0x0D
      \<or> c = CHR 0x20 \<or> c = CHR 0xA0)"

definition trim :: "string \<Rightarrow> string" where
  "trim s = rev (dropWhile isWhiteSpace (rev (dropWhile isWhiteSpace s)))"

definition digitValue :: "char \<Rightarrow> nat option" where
  "digitValue c =
     (let n = (of_char c :: nat) in
      if 48 \<le> n \<and> n \<le> 57 then Some (n - 48)
      else if 97 \<le> n \<and> n \<le> 122 then Some (n - 87)
      else if 65 \<le> n \<and> n \<le> 90 then Some (n - 55)
      else None)"

definition isDigitIn :: "nat \<Rightarrow> char \<Rightarrow> bool" where
  "isDigitIn R c = (case digitValue c of None \<Rightarrow> False | Some d \<Rightarrow> d < R)"

definition digitOf :: "char \<Rightarrow> nat" where
  "digitOf c = (case digitValue c of None \<Rightarrow> 0 | Some d \<Rightarrow> d)"

text \<open>
  The Number for an integer: the integer itself up to 53 bits, otherwise the nearest
  value with a significand of 53 bits, a tie going to the even significand, and an
  infinity from \<open>2^1024\<close> on.
\<close>

fun bitLength :: "nat \<Rightarrow> nat" where
  "bitLength m = (if m = 0 then 0 else Suc (bitLength (m div 2)))"

declare bitLength.simps [simp del]

definition roundToDouble :: "nat \<Rightarrow> nat" where
  "roundToDouble m =
     (if bitLength m \<le> 53 then m
      else let e = bitLength m - 53;
               q = m div 2 ^ e;
               r = m mod 2 ^ e;
               half = 2 ^ (e - 1)
           in (if half < r \<or> (r = half \<and> odd q) then q + 1 else q) * 2 ^ e)"

definition toNumber :: "int \<Rightarrow> jsnum" where
  "toNumber i =
     (let m = roundToDouble (nat \<bar>i\<bar>)
      in if 2 ^ 1024 \<le> m then (if i < 0 then NegInfinity else Infinity)
         else Num (of_int (if i < 0 then - int m else int m)))"

text \<open>
  \<open>parseInt(string)\<close> with no radix: skip leading white space, read a sign, read the
  prefix \<open>0x\<close> for radix 16, take the longest run of digits of the radix, and give NaN
  when that run is empty, otherwise the Number for the integer that the digits write.
  The argument is the value of a select, a string; an argument that is a number is
  turned into its decimal string first. (The language lets an engine read the decimal
  digits after the twentieth significant one as zeros; the integer is then \<open>10^20\<close> or
  more either way.)
\<close>

definition parseInt :: "string \<Rightarrow> jsnum" where
  "parseInt string =
     (let S = dropWhile isWhiteSpace string;
          sign = (if take 1 S = ''-'' then - 1 else (1::int));
          S1 = (if take 1 S = ''-'' \<or> take 1 S = ''+'' then drop 1 S else S);
          hex = (take 2 S1 = ''0x'' \<or> take 2 S1 = ''0X'');
          R = (if hex then 16 else (10::nat));
          S2 = (if hex then drop 2 S1 else S1);
          Z = takeWhile (isDigitIn R) S2
      in if Z = [] then NaN
         else toNumber (sign * int (foldl (\<lambda>a c. a * R + digitOf c) 0 Z)))"

text \<open>
  \<open>Array(len)\<close> for a Number \<open>len\<close>: an array of that length when \<open>len\<close> is an integer
  from 0 to \<open>2^32 - 1\<close>, a RangeError otherwise (a fraction, a negative number, \<open>2^32\<close>
  or more, an infinity, NaN). The array is only ever filled, so the model returns its
  length.
\<close>

fun Array :: "jsnum \<Rightarrow> error + nat" where
  "Array (Num len) =
     (if len = of_int \<lfloor>len\<rfloor> \<and> 0 \<le> len \<and> len < 4294967296 then Inr (nat \<lfloor>len\<rfloor>)
      else Inl RangeError)"
| "Array Infinity = Inl RangeError"
| "Array NegInfinity = Inl RangeError"
| "Array NaN = Inl RangeError"

text \<open>
  \<open>join(sep)\<close> as the language defines it: walk the array with an index \<open>k\<close> and a
  result \<open>R\<close>, appending the separator before every element but the first.
\<close>

fun join_loop :: "string \<Rightarrow> string list \<Rightarrow> nat \<Rightarrow> string \<Rightarrow> string" where
  "join_loop sep [] k R = R"
| "join_loop sep (element # rest) k R =
     join_loop sep rest (Suc k) ((if 0 < k then R @ sep else R) @ element)"

definition join :: "string \<Rightarrow> string list \<Rightarrow> string" where
  "join sep xs = join_loop sep xs 0 []"

text \<open>\<open>map\<close> with a callback that may throw: the first throw ends the walk.\<close>

fun map_throwing :: "('a \<Rightarrow> error + 'b) \<Rightarrow> 'a list \<Rightarrow> error + 'b list" where
  "map_throwing f [] = Inr []"
| "map_throwing f (x # xs) =
     (case f x of
        Inl e \<Rightarrow> Inl e
      | Inr y \<Rightarrow> (case map_throwing f xs of Inl e \<Rightarrow> Inl e | Inr ys \<Rightarrow> Inr (y # ys)))"

subsection \<open>The state\<close>

record skill =
  name :: string
  experience :: jsnum

record state =
  selectedSkills :: "skill list"
  interests :: string

text \<open>The page as the script finds it: no skill chosen, the control empty.\<close>

definition initial :: state where
  "initial = \<lparr>selectedSkills = [], interests = []\<rparr>"

subsection \<open>updateInterestsInput\<close>

text \<open>The callback of the \<open>map\<close>: the name, \<open>experience\<close> times, joined by a space.\<close>

definition weightedSkill :: "skill \<Rightarrow> error + string" where
  "weightedSkill skill =
     (case Array (experience skill) of
        Inl e \<Rightarrow> Inl e
      | Inr len \<Rightarrow> Inr (join '' '' (replicate len (name skill))))"

definition weightedSkills :: "skill list \<Rightarrow> error + string" where
  "weightedSkills skills =
     (case map_throwing weightedSkill skills of
        Inl e \<Rightarrow> Inl e
      | Inr segments \<Rightarrow> Inr (join '', '' segments))"

definition updateInterestsInput :: "state \<Rightarrow> completion \<times> state" where
  "updateInterestsInput s =
     (case weightedSkills (selectedSkills s) of
        Inl e \<Rightarrow> (Some e, s)
      | Inr q \<Rightarrow> (None, s\<lparr>interests := q\<rparr>))"

subsection \<open>addSkill and the click on the add button\<close>

text \<open>
  \<open>addSkill(skillName, experienceLevel = 3)\<close>: an omitted level is \<open>None\<close> and stands
  for 3. The entry is pushed before the interest string is rebuilt, so it stays when
  the rebuilding throws.
\<close>

definition addSkill :: "string \<Rightarrow> jsnum option \<Rightarrow> state \<Rightarrow> completion \<times> state" where
  "addSkill skillName experienceLevel s =
     (if \<exists>k \<in> set (selectedSkills s). name k = skillName then (None, s)
      else updateInterestsInput
             (s\<lparr>selectedSkills := selectedSkills s @
                   [\<lparr>name = skillName,
                     experience = (case experienceLevel of None \<Rightarrow> Num 3 | Some l \<Rightarrow> l)\<rparr>]\<rparr>))"

text \<open>
  The click handler reads the two selects; their values are its arguments here.
  An empty skill name is falsy and ends the handler.
\<close>

definition addSkillClick :: "string \<Rightarrow> string \<Rightarrow> state \<Rightarrow> completion \<times> state" where
  "addSkillClick skillValue experienceValue s =
     (let skillName = skillValue;
          experienceLevel = parseInt experienceValue
      in if skillName = [] then (None, s)
         else addSkill skillName (Some experienceLevel) s)"

subsection \<open>removeSkill\<close>

definition removeSkill :: "string \<Rightarrow> state \<Rightarrow> completion \<times> state" where
  "removeSkill skillName s =
     updateInterestsInput
       (s\<lparr>selectedSkills := filter (\<lambda>k. name k \<noteq> skillName) (selectedSkills s)\<rparr>)"

subsection \<open>updateSkillExperience\<close>

text \<open>
  \<open>find\<close> gives the first entry of that name, and the assignment changes that entry
  where it sits in the array.
\<close>

fun assignExperience :: "string \<Rightarrow> jsnum \<Rightarrow> skill list \<Rightarrow> skill list" where
  "assignExperience skillName v [] = []"
| "assignExperience skillName v (k # ks) =
     (if name k = skillName then k\<lparr>experience := v\<rparr> # ks
      else k # assignExperience skillName v ks)"

definition updateSkillExperience :: "string \<Rightarrow> string \<Rightarrow> state \<Rightarrow> completion \<times> state" where
  "updateSkillExperience skillName newExperience s =
     (case find (\<lambda>k. name k = skillName) (selectedSkills s) of
        None \<Rightarrow> (None, s)
      | Some skill \<Rightarrow>
          updateInterestsInput
            (s\<lparr>selectedSkills :=
                 assignExperience skillName (parseInt newExperience) (selectedSkills s)\<rparr>))"

subsection \<open>The reset button\<close>

text \<open>
  \<open>form.reset()\<close> puts every control of the form back to the value of its \<open>value\<close>
  attribute. The control \<open>interests\<close> is a hidden input (the script calls it
  \<open>interestsHiddenInput\<close> and \<open>updateInterestsInput\<close> is commented as updating the
  hidden input): the value of a hidden input is its \<open>value\<close> attribute, so the
  assignment in \<open>updateInterestsInput\<close> has set the attribute and the reset finds the
  control as it is. The other controls of the form are not part of the state.
\<close>

definition form_reset :: "state \<Rightarrow> state" where
  "form_reset s = s"

text \<open>The handler resets the form and empties the array; it does not rebuild the string.\<close>

definition resetClick :: "state \<Rightarrow> state" where
  "resetClick s = (form_reset s)\<lparr>selectedSkills := []\<rparr>"

subsection \<open>The submission of the form\<close>

text \<open>
  The handler either shows an error or goes on to build the request and call the
  service; what happens after the request has been built is outside the model.
  Its arguments are the values of the controls \<open>k\<close> and \<open>model_type\<close>.
\<close>

datatype submission = ShowError string | Request jsnum string string

definition submit :: "string \<Rightarrow> string option \<Rightarrow> state \<Rightarrow> submission" where
  "submit kValue modelTypeValue s =
     (let interestsValue = interests s;
          kParsed = parseInt kValue;
          modelType = (case modelTypeValue of
                         None \<Rightarrow> ''hybrid''
                       | Some m \<Rightarrow> if m = [] then ''hybrid'' else m)
      in if trim interestsValue = []
         then ShowError ''Please add at least one skill with experience level''
         else if length (selectedSkills s) = 0
         then ShowError ''Please add at least one skill with experience level''
         else Request kParsed modelType interestsValue)"

subsection \<open>The longest string of an engine\<close>

text \<open>
  An engine refuses to build a string longer than its longest string and throws a
  RangeError (invalid string length) instead. The language leaves that length to the
  engine, so it is a parameter here. The functions above are the script where no
  string comes near it; the functions that follow are the rebuilding of the interest
  string and \<open>updateSkillExperience\<close> with the refusal in them, for the statements on
  whether the rebuilding returns at all. A \<open>join\<close> only ever lengthens its result, so it
  is refused exactly when the joined string is too long. An engine whose heap is
  exhausted stops altogether; that is no error of the language and is outside the
  model.
\<close>

definition joinWithin :: "nat \<Rightarrow> string \<Rightarrow> string list \<Rightarrow> error + string" where
  "joinWithin maxLength sep xs =
     (if length (join sep xs) \<le> maxLength then Inr (join sep xs) else Inl RangeError)"

definition weightedSkillWithin :: "nat \<Rightarrow> skill \<Rightarrow> error + string" where
  "weightedSkillWithin maxLength skill =
     (case Array (experience skill) of
        Inl e \<Rightarrow> Inl e
      | Inr len \<Rightarrow> joinWithin maxLength '' '' (replicate len (name skill)))"

definition weightedSkillsWithin :: "nat \<Rightarrow> skill list \<Rightarrow> error + string" where
  "weightedSkillsWithin maxLength skills =
     (case map_throwing (weightedSkillWithin maxLength) skills of
        Inl e \<Rightarrow> Inl e
      | Inr segments \<Rightarrow> joinWithin maxLength '', '' segments)"

definition updateInterestsInputWithin :: "nat \<Rightarrow> state \<Rightarrow> completion \<times> state" where
  "updateInterestsInputWithin maxLength s =
     (case weightedSkillsWithin maxLength (selectedSkills s) of
        Inl e \<Rightarrow> (Some e, s)
      | Inr q \<Rightarrow> (None, s\<lparr>interests := q\<rparr>))"

definition updateSkillExperienceWithin ::
    "nat \<Rightarrow> string \<Rightarrow> string \<Rightarrow> state \<Rightarrow> completion \<times> state" where
  "updateSkillExperienceWithin maxLength skillName newExperience s =
     (case find (\<lambda>k. name k = skillName) (selectedSkills s) of
        None \<Rightarrow> (None, s)
      | Some skill \<Rightarrow>
          updateInterestsInputWithin maxLength
            (s\<lparr>selectedSkills :=
                 assignExperience skillName (parseInt newExperience) (selectedSkills s)\<rparr>))"

subsection \<open>What the specification says of the query\<close>

text \<open>
  The specification's \<open>toWeightedQuery\<close>, written from its words over entries of a name
  and a level: the name repeated level times with single spaces between, and the
  segments of the entries, in order, with a comma and a space between.
\<close>

fun repeated :: "nat \<Rightarrow> string \<Rightarrow> string" where
  "repeated 0 n = []"
| "repeated (Suc 0) n = n"
| "repeated (Suc (Suc l)) n = n @ '' '' @ repeated (Suc l) n"

fun toWeightedQuery_spec :: "(string \<times> nat) list \<Rightarrow> string" where
  "toWeightedQuery_spec [] = []"
| "toWeightedQuery_spec [(n, l)] = repeated l n"
| "toWeightedQuery_spec ((n, l) # e # es) = repeated l n @ '', '' @ toWeightedQuery_spec (e # es)"

text \<open>A level that \<open>Array\<close> accepts as a length, and the entries as the specification has them.\<close>

definition validLength :: "jsnum \<Rightarrow> bool" where
  "validLength v =
     (case v of Num l \<Rightarrow> l = of_int \<lfloor>l\<rfloor> \<and> 0 \<le> l \<and> l < 4294967296 | _ \<Rightarrow> False)"

definition levelOf :: "skill \<Rightarrow> nat" where
  "levelOf k = (case experience k of Num l \<Rightarrow> nat \<lfloor>l\<rfloor> | _ \<Rightarrow> 0)"

definition entries :: "state \<Rightarrow> (string \<times> nat) list" where
  "entries s = map (\<lambda>k. (name k, levelOf k)) (selectedSkills s)"

definition hasSkill :: "string \<Rightarrow> state \<Rightarrow> bool" where
  "hasSkill n s = (n \<in> set (map name (selectedSkills s)))"

definition uniqueNames :: "state \<Rightarrow> bool" where
  "uniqueNames s = distinct (map name (selectedSkills s))"

text \<open>
  The states the handlers can bring about, from any state with no skill chosen.
  \<open>fillTestCase\<close> empties the array and then calls \<open>addSkill\<close> for each skill of the
  test, so the states it passes through are among them.
\<close>

inductive reachable :: "state \<Rightarrow> bool" where
  start: "selectedSkills s = [] \<Longrightarrow> reachable s"
| click: "reachable s \<Longrightarrow> reachable (snd (addSkillClick n v s))"
| add: "reachable s \<Longrightarrow> reachable (snd (addSkill n l s))"
| remove: "reachable s \<Longrightarrow> reachable (snd (removeSkill n s))"
| update: "reachable s \<Longrightarrow> reachable (snd (updateSkillExperience n v s))"
| reset: "reachable s \<Longrightarrow> reachable (resetClick s)"

section \<open>Properties\<close>

subsection \<open>Numbers\<close>

lemma bitLength_bound: "m < 2 ^ k \<Longrightarrow> bitLength m \<le> k"
proof (induction k arbitrary: m)
  case 0
  then show ?case by (simp add: bitLength.simps)
next
  case (Suc k)
  show ?case
  proof (cases "m = 0")
    case True
    then show ?thesis by (simp add: bitLength.simps)
  next
    case False
    from Suc.prems have "m div 2 < 2 ^ k" by simp
    from Suc.IH [OF this] False show ?thesis by (subst bitLength.simps) simp
  qed
qed

lemma toNumber_exact: "\<bar>i\<bar> < 2 ^ 53 \<Longrightarrow> toNumber i = Num (of_int i)"
proof -
  assume small: "\<bar>i\<bar> < 2 ^ 53"
  then have below: "nat \<bar>i\<bar> < 2 ^ 53" by (simp add: nat_less_iff)
  then have "bitLength (nat \<bar>i\<bar>) \<le> 53" by (rule bitLength_bound)
  then have r: "roundToDouble (nat \<bar>i\<bar>) = nat \<bar>i\<bar>" by (simp add: roundToDouble_def)
  note below
  also have "(2::nat) ^ 53 \<le> 2 ^ 1024" by (rule power_increasing) simp_all
  finally have "\<not> (2::nat) ^ 1024 \<le> nat \<bar>i\<bar>" by simp
  then show ?thesis by (simp add: toNumber_def r Let_def)
qed

lemma parseInt_rounds: "parseInt ''9007199254740993'' = Num 9007199254740992"
  by (simp add: parseInt_def isWhiteSpace_def isDigitIn_def digitValue_def digitOf_def
      toNumber_def roundToDouble_def bitLength.simps Let_def)

lemmas parseInt_eval =
  parseInt_def isWhiteSpace_def isDigitIn_def digitValue_def digitOf_def toNumber_exact

subsection \<open>Joining\<close>

lemma join_loop_later:
  "0 < k \<Longrightarrow> join_loop sep xs k R = R @ concat (map (\<lambda>x. sep @ x) xs)"
  by (induction xs arbitrary: k R) simp_all

lemma join_Nil: "join sep [] = []"
  by (simp add: join_def)

lemma join_Cons: "join sep (x # xs) = x @ concat (map (\<lambda>y. sep @ y) xs)"
  by (simp add: join_def join_loop_later)

lemma repeated_Suc: "repeated (Suc l) n = n @ concat (replicate l ('' '' @ n))"
  by (induction l) simp_all

lemma join_replicate: "join '' '' (replicate l n) = repeated l n"
proof (cases l)
  case 0
  then show ?thesis by (simp add: join_Nil)
next
  case (Suc m)
  have "join '' '' (replicate (Suc m) n) = n @ concat (replicate m ('' '' @ n))"
    by (simp add: join_Cons map_replicate)
  with Suc show ?thesis by (simp only: repeated_Suc)
qed

lemma spec_Cons:
  "toWeightedQuery_spec ((n, l) # es) =
     repeated l n @ concat (map (\<lambda>(m, j). '', '' @ repeated j m) es)"
proof (induction es arbitrary: n l)
  case Nil
  show ?case by simp
next
  case (Cons e es)
  obtain m j where e: "e = (m, j)" by (cases e)
  show ?case using Cons.IH [of m j] by (simp add: e)
qed

lemma join_segments:
  "join '', '' (map (\<lambda>(n, l). repeated l n) es) = toWeightedQuery_spec es"
proof (cases es)
  case Nil
  then show ?thesis by (simp add: join_Nil)
next
  case (Cons e es')
  obtain n l where e: "e = (n, l)" by (cases e)
  have "map (\<lambda>y. '', '' @ y) (map (\<lambda>(n, l). repeated l n) es')
        = map (\<lambda>(m, j). '', '' @ repeated j m) es'"
    by (simp add: case_prod_beta)
  then show ?thesis unfolding Cons e
    by (simp only: list.map prod.case join_Cons spec_Cons)
qed

subsection \<open>The segments of the entries\<close>

lemma Array_valid: "validLength v \<Longrightarrow> Array v = Inr (case v of Num l \<Rightarrow> nat \<lfloor>l\<rfloor> | _ \<Rightarrow> 0)"
  by (cases v) (simp_all add: validLength_def)

lemma Array_invalid: "\<not> validLength v \<Longrightarrow> Array v = Inl RangeError"
  by (cases v) (simp_all add: validLength_def)

lemma weightedSkill_valid:
  "validLength (experience k) \<Longrightarrow> weightedSkill k = Inr (repeated (levelOf k) (name k))"
  by (simp add: weightedSkill_def Array_valid levelOf_def join_replicate)

lemma weightedSkill_invalid:
  "\<not> validLength (experience k) \<Longrightarrow> weightedSkill k = Inl RangeError"
  by (simp add: weightedSkill_def Array_invalid)

lemma map_throwing_valid:
  "\<forall>k \<in> set ks. validLength (experience k) \<Longrightarrow>
     map_throwing weightedSkill ks = Inr (map (\<lambda>k. repeated (levelOf k) (name k)) ks)"
  by (induction ks) (simp_all add: weightedSkill_valid)

lemma map_throwing_invalid:
  "\<exists>k \<in> set ks. \<not> validLength (experience k) \<Longrightarrow>
     map_throwing weightedSkill ks = Inl RangeError"
proof (induction ks)
  case Nil
  then show ?case by simp
next
  case (Cons k ks)
  show ?case
  proof (cases "validLength (experience k)")
    case False
    then show ?thesis by (simp add: weightedSkill_invalid)
  next
    case True
    with Cons.prems have "\<exists>k \<in> set ks. \<not> validLength (experience k)" by auto
    with Cons.IH True show ?thesis by (simp add: weightedSkill_valid)
  qed
qed

lemma weightedSkills_valid:
  assumes "\<forall>k \<in> set ks. validLength (experience k)"
  shows "weightedSkills ks = Inr (toWeightedQuery_spec (map (\<lambda>k. (name k, levelOf k)) ks))"
proof -
  have "map (\<lambda>k. repeated (levelOf k) (name k)) ks
        = map (\<lambda>(n, l). repeated l n) (map (\<lambda>k. (name k, levelOf k)) ks)"
    by simp
  then show ?thesis
    using assms by (simp only: weightedSkills_def map_throwing_valid sum.case join_segments)
qed

lemma weightedSkills_invalid:
  "\<exists>k \<in> set ks. \<not> validLength (experience k) \<Longrightarrow> weightedSkills ks = Inl RangeError"
  by (simp add: weightedSkills_def map_throwing_invalid)

lemma updateInterestsInput_valid:
  "\<forall>k \<in> set (selectedSkills s). validLength (experience k) \<Longrightarrow>
     updateInterestsInput s = (None, s\<lparr>interests := toWeightedQuery_spec (entries s)\<rparr>)"
  by (simp add: updateInterestsInput_def weightedSkills_valid entries_def)

lemma updateInterestsInput_invalid:
  "\<exists>k \<in> set (selectedSkills s). \<not> validLength (experience k) \<Longrightarrow>
     updateInterestsInput s = (Some RangeError, s)"
  by (simp add: updateInterestsInput_def weightedSkills_invalid)

lemma updateInterestsInput_skills:
  "selectedSkills (snd (updateInterestsInput s)) = selectedSkills s"
  by (simp add: updateInterestsInput_def split: sum.splits)

subsection \<open>The weighted query\<close>

text \<open>
  C2. The interest string that \<open>updateInterestsInput\<close> stores is the query of the
  specification: for each entry in insertion order its name repeated level times with
  single spaces, the segments joined by a comma and a space. This holds for every
  set whose levels are lengths that \<open>Array\<close> accepts (among them the levels 1 to 5).
  The entries a at 2 and b at 1 give \<open>a a, b\<close>; adding python at 4 and then machine
  learning at 3 to the empty page gives the string of the end-to-end scenario.
\<close>

theorem weighted_query_as_specified:
  "((\<forall>k \<in> set (selectedSkills s). validLength (experience k)) \<longrightarrow>
      updateInterestsInput s = (None, s\<lparr>interests := toWeightedQuery_spec (entries s)\<rparr>))
   \<and> weightedSkills [\<lparr>name = ''a'', experience = Num 2\<rparr>, \<lparr>name = ''b'', experience = Num 1\<rparr>]
       = Inr ''a a, b''
   \<and> toWeightedQuery_spec [(''a'', 2), (''b'', 1)] = ''a a, b''
   \<and> interests (snd (addSkill ''machine learning'' (Some (Num 3))
                      (snd (addSkill ''python'' (Some (Num 4)) initial))))
       = ''python python python python, machine learning machine learning machine learning''"
proof (intro conjI impI)
  assume "\<forall>k \<in> set (selectedSkills s). validLength (experience k)"
  then show "updateInterestsInput s = (None, s\<lparr>interests := toWeightedQuery_spec (entries s)\<rparr>)"
    by (rule updateInterestsInput_valid)
next
  show "weightedSkills [\<lparr>name = ''a'', experience = Num 2\<rparr>, \<lparr>name = ''b'', experience = Num 1\<rparr>]
       = Inr ''a a, b''"
    by (simp add: weightedSkills_def weightedSkill_def join_def eval_nat_numeral)
next
  show "toWeightedQuery_spec [(''a'', 2), (''b'', 1)] = ''a a, b''"
    by (simp add: eval_nat_numeral)
next
  show "interests (snd (addSkill ''machine learning'' (Some (Num 3))
                      (snd (addSkill ''python'' (Some (Num 4)) initial))))
       = ''python python python python, machine learning machine learning machine learning''"
    by (simp add: addSkill_def initial_def updateInterestsInput_def weightedSkills_def
        weightedSkill_def join_def eval_nat_numeral)
qed

theorem weighted_query_as_specified_witness:
  "validLength (Num 2) \<and> validLength (Num 1)
   \<and> updateInterestsInput
       \<lparr>selectedSkills = [\<lparr>name = ''a'', experience = Num 2\<rparr>, \<lparr>name = ''b'', experience = Num 1\<rparr>],
        interests = ''stale''\<rparr>
     = (None,
        \<lparr>selectedSkills = [\<lparr>name = ''a'', experience = Num 2\<rparr>, \<lparr>name = ''b'', experience = Num 1\<rparr>],
         interests = ''a a, b''\<rparr>)"
  using weighted_query_as_specified
    [of "\<lparr>selectedSkills = [\<lparr>name = ''a'', experience = Num 2\<rparr>, \<lparr>name = ''b'', experience = Num 1\<rparr>],
          interests = ''stale''\<rparr>"]
  by (simp add: validLength_def entries_def levelOf_def eval_nat_numeral)

subsection \<open>The rebuilding of the query within an engine's longest string\<close>

lemma length_concat_replicate: "length (concat (replicate m y)) = m * length y"
  by (induction m) simp_all

lemma length_join_replicate:
  "length (join sep (replicate (Suc m) x)) = length x + m * (length sep + length x)"
  by (simp add: join_Cons map_replicate length_concat_replicate)

lemma length_join_ge: "sum_list (map length xs) \<le> length (join sep xs)"
proof (cases xs)
  case Nil
  then show ?thesis by (simp add: join_Nil)
next
  case (Cons x ys)
  have "sum_list (map length ys) \<le> length (concat (map (\<lambda>y. sep @ y) ys))"
    by (induction ys) simp_all
  with Cons show ?thesis by (simp add: join_Cons)
qed

lemma length_segment_le: "x \<in> set xs \<Longrightarrow> length x \<le> length (join sep xs)"
proof -
  assume "x \<in> set xs"
  then have "length x \<in> set (map length xs)" by simp
  then have "length x \<le> sum_list (map length xs)" by (simp add: member_le_sum_list)
  also have "\<dots> \<le> length (join sep xs)" by (rule length_join_ge)
  finally show ?thesis .
qed

lemma weightedSkillWithin_Inr:
  "weightedSkillWithin L k = Inr y \<longleftrightarrow> weightedSkill k = Inr y \<and> length y \<le> L"
  by (auto simp: weightedSkillWithin_def weightedSkill_def joinWithin_def split: sum.splits)

lemma map_throwing_within_Inr:
  "map_throwing (weightedSkillWithin L) ks = Inr ys \<longleftrightarrow>
     map_throwing weightedSkill ks = Inr ys \<and> (\<forall>y \<in> set ys. length y \<le> L)"
proof (induction ks arbitrary: ys)
  case Nil
  show ?case by auto
next
  case (Cons k ks)
  show ?case
  proof (cases "weightedSkillWithin L k")
    case (Inl e)
    then have "\<And>y. \<not> (weightedSkill k = Inr y \<and> length y \<le> L)"
      by (simp add: weightedSkillWithin_Inr [symmetric])
    with Inl show ?thesis by (auto split: sum.splits)
  next
    case (Inr y)
    then have y: "weightedSkill k = Inr y" and fits: "length y \<le> L"
      by (simp_all add: weightedSkillWithin_Inr)
    show ?thesis
    proof (cases "map_throwing (weightedSkillWithin L) ks")
      case (Inl e)
      with Cons.IH have "\<And>zs. \<not> (map_throwing weightedSkill ks = Inr zs \<and> (\<forall>z \<in> set zs. length z \<le> L))"
        by simp
      with Inl Inr y show ?thesis by (auto split: sum.splits)
    next
      case inner: (Inr zs)
      from Cons.IH [of zs] inner
      have "map_throwing weightedSkill ks = Inr zs" and "\<forall>z \<in> set zs. length z \<le> L"
        by simp_all
      with inner Inr y fits show ?thesis by auto
    qed
  qed
qed

lemma weightedSkillsWithin_Inr:
  "weightedSkillsWithin L ks = Inr q \<longleftrightarrow> weightedSkills ks = Inr q \<and> length q \<le> L"
proof
  assume "weightedSkillsWithin L ks = Inr q"
  then obtain ys where "map_throwing (weightedSkillWithin L) ks = Inr ys"
    and "joinWithin L '', '' ys = Inr q"
    by (auto simp: weightedSkillsWithin_def split: sum.splits)
  then show "weightedSkills ks = Inr q \<and> length q \<le> L"
    by (auto simp: map_throwing_within_Inr weightedSkills_def joinWithin_def split: if_splits)
next
  assume "weightedSkills ks = Inr q \<and> length q \<le> L"
  then obtain ys where ys: "map_throwing weightedSkill ks = Inr ys" and q: "q = join '', '' ys"
    and fits: "length (join '', '' ys) \<le> L"
    by (auto simp: weightedSkills_def split: sum.splits)
  have "\<forall>y \<in> set ys. length y \<le> L"
  proof
    fix y assume "y \<in> set ys"
    then have "length y \<le> length (join '', '' ys)" by (rule length_segment_le)
    with fits show "length y \<le> L" by simp
  qed
  with ys have "map_throwing (weightedSkillWithin L) ks = Inr ys"
    by (simp add: map_throwing_within_Inr)
  with q fits show "weightedSkillsWithin L ks = Inr q"
    by (simp add: weightedSkillsWithin_def joinWithin_def)
qed

lemma weightedSkillsWithin_Inl:
  "weightedSkillsWithin L ks = Inl RangeError \<longleftrightarrow>
     \<not> (\<exists>q. weightedSkills ks = Inr q \<and> length q \<le> L)"
proof -
  have "weightedSkillsWithin L ks = Inl RangeError \<longleftrightarrow> \<not> (\<exists>q. weightedSkillsWithin L ks = Inr q)"
  proof (cases "weightedSkillsWithin L ks")
    case (Inl e)
    then show ?thesis by (cases e) simp
  next
    case (Inr q)
    then show ?thesis by simp
  qed
  then show ?thesis by (simp add: weightedSkillsWithin_Inr)
qed

lemma updateInterestsInputWithin_agrees:
  assumes "updateInterestsInput s = (None, s')" and "length (interests s') \<le> L"
  shows "updateInterestsInputWithin L s = (None, s')"
proof -
  from assms(1) obtain q where q: "weightedSkills (selectedSkills s) = Inr q"
    and s': "s' = s\<lparr>interests := q\<rparr>"
    by (auto simp: updateInterestsInput_def split: sum.splits)
  from assms(2) s' have "length q \<le> L" by simp
  with q have "weightedSkillsWithin L (selectedSkills s) = Inr q"
    by (simp add: weightedSkillsWithin_Inr)
  with s' show ?thesis by (simp add: updateInterestsInputWithin_def)
qed

lemma updateSkillExperienceWithin_agrees:
  assumes "updateSkillExperience n v s = (None, s')" and "length (interests s') \<le> L"
  shows "updateSkillExperienceWithin L n v s = (None, s')"
proof (cases "find (\<lambda>k. name k = n) (selectedSkills s)")
  case None
  with assms(1) show ?thesis
    by (simp add: updateSkillExperience_def updateSkillExperienceWithin_def)
next
  case (Some e)
  with assms(1) have "updateInterestsInput
      (s\<lparr>selectedSkills := assignExperience n (parseInt v) (selectedSkills s)\<rparr>) = (None, s')"
    by (simp add: updateSkillExperience_def)
  from updateInterestsInputWithin_agrees [OF this assms(2)] Some show ?thesis
    by (simp add: updateSkillExperienceWithin_def)
qed

lemma updateInterestsInputWithin_fits:
  assumes "\<forall>k \<in> set (selectedSkills s). validLength (experience k)"
    and "length (toWeightedQuery_spec (entries s)) \<le> L"
  shows "updateInterestsInputWithin L s = (None, s\<lparr>interests := toWeightedQuery_spec (entries s)\<rparr>)"
proof -
  from assms(1) have "weightedSkills (selectedSkills s) = Inr (toWeightedQuery_spec (entries s))"
    by (simp add: weightedSkills_valid entries_def)
  with assms(2) have "weightedSkillsWithin L (selectedSkills s) = Inr (toWeightedQuery_spec (entries s))"
    by (simp add: weightedSkillsWithin_Inr)
  then show ?thesis by (simp add: updateInterestsInputWithin_def)
qed

lemma updateInterestsInputWithin_invalid:
  assumes "\<exists>k \<in> set (selectedSkills s). \<not> validLength (experience k)"
  shows "updateInterestsInputWithin L s = (Some RangeError, s)"
proof -
  from assms have "weightedSkills (selectedSkills s) = Inl RangeError"
    by (rule weightedSkills_invalid)
  then have "weightedSkillsWithin L (selectedSkills s) = Inl RangeError"
    by (simp add: weightedSkillsWithin_Inl)
  then show ?thesis by (simp add: updateInterestsInputWithin_def)
qed

lemma updateInterestsInputWithin_long:
  assumes "\<forall>k \<in> set (selectedSkills s). validLength (experience k)"
    and "L < length (toWeightedQuery_spec (entries s))"
  shows "updateInterestsInputWithin L s = (Some RangeError, s)"
proof -
  from assms(1) have "weightedSkills (selectedSkills s) = Inr (toWeightedQuery_spec (entries s))"
    by (simp add: weightedSkills_valid entries_def)
  with assms(2) have "weightedSkillsWithin L (selectedSkills s) = Inl RangeError"
    by (simp add: weightedSkillsWithin_Inl)
  then show ?thesis by (simp add: updateInterestsInputWithin_def)
qed

text \<open>
  C10, as the claim has it, fails: the level 4294967296 is a non-negative integer, and
  \<open>Array\<close> rejects it, so the rebuilding throws; \<open>updateSkillExperience\<close> stores that
  level from the string \<open>4294967296\<close>. And with a level that \<open>Array\<close> accepts the
  rebuilding still throws where the string would be longer than the engine's longest:
  a name of 1024 characters at level 600000 in an engine whose longest string has
  536870888 characters.
\<close>

theorem query_total_counterexample:
  "(0::int) \<le> 4294967296
   \<and> updateInterestsInput
       \<lparr>selectedSkills = [\<lparr>name = ''a'', experience = Num 4294967296\<rparr>], interests = []\<rparr>
     = (Some RangeError,
        \<lparr>selectedSkills = [\<lparr>name = ''a'', experience = Num 4294967296\<rparr>], interests = []\<rparr>)
   \<and> updateSkillExperience ''a'' ''4294967296''
       \<lparr>selectedSkills = [\<lparr>name = ''a'', experience = Num 3\<rparr>], interests = ''a a a''\<rparr>
     = (Some RangeError,
        \<lparr>selectedSkills = [\<lparr>name = ''a'', experience = Num 4294967296\<rparr>],
         interests = ''a a a''\<rparr>)
   \<and> validLength (Num 600000)
   \<and> updateInterestsInputWithin 536870888
       \<lparr>selectedSkills = [\<lparr>name = replicate 1024 (CHR ''a''), experience = Num 600000\<rparr>],
        interests = []\<rparr>
     = (Some RangeError,
        \<lparr>selectedSkills = [\<lparr>name = replicate 1024 (CHR ''a''), experience = Num 600000\<rparr>],
         interests = []\<rparr>)"
proof -
  have "length (join '' '' (replicate (Suc 599999) (replicate 1024 (CHR ''a'')))) = 614999999"
    by (simp only: length_join_replicate) simp
  moreover have "(600000::nat) = Suc 599999" by simp
  ultimately have long: "length (join '' '' (replicate 600000 (replicate 1024 (CHR ''a'')))) = 614999999"
    by (simp only:)
  have "weightedSkillWithin 536870888
      \<lparr>name = replicate 1024 (CHR ''a''), experience = Num 600000\<rparr> = Inl RangeError"
    by (simp add: weightedSkillWithin_def joinWithin_def long)
  then have "updateInterestsInputWithin 536870888
       \<lparr>selectedSkills = [\<lparr>name = replicate 1024 (CHR ''a''), experience = Num 600000\<rparr>],
        interests = []\<rparr>
     = (Some RangeError,
        \<lparr>selectedSkills = [\<lparr>name = replicate 1024 (CHR ''a''), experience = Num 600000\<rparr>],
         interests = []\<rparr>)"
    by (simp add: updateInterestsInputWithin_def weightedSkillsWithin_def)
  moreover have "updateInterestsInput
       \<lparr>selectedSkills = [\<lparr>name = ''a'', experience = Num 4294967296\<rparr>], interests = []\<rparr>
     = (Some RangeError,
        \<lparr>selectedSkills = [\<lparr>name = ''a'', experience = Num 4294967296\<rparr>], interests = []\<rparr>)"
    by (simp add: updateInterestsInput_def weightedSkills_def weightedSkill_def)
  moreover have "updateSkillExperience ''a'' ''4294967296''
       \<lparr>selectedSkills = [\<lparr>name = ''a'', experience = Num 3\<rparr>], interests = ''a a a''\<rparr>
     = (Some RangeError,
        \<lparr>selectedSkills = [\<lparr>name = ''a'', experience = Num 4294967296\<rparr>],
         interests = ''a a a''\<rparr>)"
    by (simp add: updateSkillExperience_def updateInterestsInput_def weightedSkills_def
        weightedSkill_def parseInt_eval)
  moreover have "validLength (Num 600000)" by (simp add: validLength_def)
  ultimately show ?thesis by simp
qed

text \<open>
  C10, amended. Where every level is an integer from 0 to \<open>2^32 - 1\<close> (so for every
  level from 1 to 5) and the weighted query is no longer than the engine's longest
  string, the rebuilding of the query returns that string and stores it. Where some
  level is not such an integer (a negative number, a fraction, \<open>2^32\<close> or more, an
  infinity, NaN), \<open>Array\<close> throws a RangeError for it and the rebuilding throws; and
  where the levels are such integers and the query is longer than the engine's
  longest string, the rebuilding throws a RangeError as well.
\<close>

theorem query_total_within_limits:
  "(validLength v \<longleftrightarrow> (\<exists>l. v = Num (of_int l) \<and> 0 \<le> l \<and> l < 2 ^ 32))
   \<and> (1 \<le> j \<and> j \<le> 5 \<longrightarrow> validLength (Num (of_int j)))
   \<and> \<not> validLength (Num (- 1)) \<and> \<not> validLength (Num (5 / 2)) \<and> \<not> validLength NaN
   \<and> (\<not> validLength v \<longrightarrow> Array v = Inl RangeError)
   \<and> ((\<forall>k \<in> set (selectedSkills s). validLength (experience k))
        \<and> length (toWeightedQuery_spec (entries s)) \<le> L \<longrightarrow>
        updateInterestsInputWithin L s
          = (None, s\<lparr>interests := toWeightedQuery_spec (entries s)\<rparr>))
   \<and> ((\<exists>k \<in> set (selectedSkills s). \<not> validLength (experience k)) \<longrightarrow>
        updateInterestsInputWithin L s = (Some RangeError, s))
   \<and> ((\<forall>k \<in> set (selectedSkills s). validLength (experience k))
        \<and> L < length (toWeightedQuery_spec (entries s)) \<longrightarrow>
        updateInterestsInputWithin L s = (Some RangeError, s))"
proof (intro conjI impI)
  show "validLength v \<longleftrightarrow> (\<exists>l. v = Num (of_int l) \<and> 0 \<le> l \<and> l < 2 ^ 32)"
  proof (cases v)
    case (Num x)
    have "x = of_int \<lfloor>x\<rfloor> \<and> 0 \<le> x \<and> x < 4294967296
        \<longleftrightarrow> (\<exists>l. x = of_int l \<and> 0 \<le> l \<and> l < (4294967296::int))"
    proof
      assume "x = of_int \<lfloor>x\<rfloor> \<and> 0 \<le> x \<and> x < 4294967296"
      then have "x = of_int \<lfloor>x\<rfloor> \<and> 0 \<le> \<lfloor>x\<rfloor> \<and> \<lfloor>x\<rfloor> < 4294967296"
        by (simp add: floor_less_iff)
      then show "\<exists>l. x = of_int l \<and> 0 \<le> l \<and> l < (4294967296::int)" by blast
    next
      assume "\<exists>l. x = of_int l \<and> 0 \<le> l \<and> l < (4294967296::int)"
      then obtain l :: int where "x = of_int l" and "0 \<le> l" and "l < 4294967296" by blast
      then show "x = of_int \<lfloor>x\<rfloor> \<and> 0 \<le> x \<and> x < 4294967296" by simp
    qed
    with Num show ?thesis by (simp add: validLength_def)
  qed (simp_all add: validLength_def)
next
  assume "1 \<le> j \<and> j \<le> 5"
  then show "validLength (Num (of_int j))" by (simp add: validLength_def)
next
  show "\<not> validLength (Num (- 1))" by (simp add: validLength_def)
  have "\<lfloor>(5::rat) / 2\<rfloor> = 2" by (rule floor_unique) simp_all
  then show "\<not> validLength (Num (5 / 2))" by (simp add: validLength_def)
  show "\<not> validLength NaN" by (simp add: validLength_def)
next
  assume "\<not> validLength v"
  then show "Array v = Inl RangeError" by (rule Array_invalid)
next
  assume "(\<forall>k \<in> set (selectedSkills s). validLength (experience k))
        \<and> length (toWeightedQuery_spec (entries s)) \<le> L"
  then show "updateInterestsInputWithin L s
      = (None, s\<lparr>interests := toWeightedQuery_spec (entries s)\<rparr>)"
    by (simp add: updateInterestsInputWithin_fits)
next
  assume "\<exists>k \<in> set (selectedSkills s). \<not> validLength (experience k)"
  then show "updateInterestsInputWithin L s = (Some RangeError, s)"
    by (rule updateInterestsInputWithin_invalid)
next
  assume "(\<forall>k \<in> set (selectedSkills s). validLength (experience k))
        \<and> L < length (toWeightedQuery_spec (entries s))"
  then show "updateInterestsInputWithin L s = (Some RangeError, s)"
    by (simp add: updateInterestsInputWithin_long)
qed
theorem query_total_within_limits_witness:
  "validLength (Num 5)
   \<and> length (toWeightedQuery_spec [(''sql'', 5)]) \<le> 536870888
   \<and> updateInterestsInputWithin 536870888
        \<lparr>selectedSkills = [\<lparr>name = ''sql'', experience = Num 5\<rparr>], interests = []\<rparr>
      = (None, \<lparr>selectedSkills = [\<lparr>name = ''sql'', experience = Num 5\<rparr>],
                interests = ''sql sql sql sql sql''\<rparr>)
   \<and> \<not> validLength (Num (5 / 2))
   \<and> updateInterestsInputWithin 536870888
        \<lparr>selectedSkills = [\<lparr>name = ''sql'', experience = Num (5 / 2)\<rparr>], interests = []\<rparr>
      = (Some RangeError,
         \<lparr>selectedSkills = [\<lparr>name = ''sql'', experience = Num (5 / 2)\<rparr>], interests = []\<rparr>)
   \<and> 10 < length (toWeightedQuery_spec [(''sql'', 5)])
   \<and> updateInterestsInputWithin 10
        \<lparr>selectedSkills = [\<lparr>name = ''sql'', experience = Num 5\<rparr>], interests = []\<rparr>
      = (Some RangeError,
         \<lparr>selectedSkills = [\<lparr>name = ''sql'', experience = Num 5\<rparr>], interests = []\<rparr>)"
proof -
  let ?s = "\<lparr>selectedSkills = [\<lparr>name = ''sql'', experience = Num 5\<rparr>], interests = []\<rparr>"
  let ?t = "\<lparr>selectedSkills = [\<lparr>name = ''sql'', experience = Num (5 / 2)\<rparr>], interests = []\<rparr>"
  have five: "validLength (Num 5)" and half: "\<not> validLength (Num (5 / 2))"
    using query_total_within_limits [of "Num 5" 5 ?s 0] by simp_all
  have r5: "repeated 5 ''sql'' = ''sql sql sql sql sql''"
    by (simp add: numeral_eq_Suc)
  then have q5: "toWeightedQuery_spec [(''sql'', 5)] = ''sql sql sql sql sql''"
    by simp
  have "entries ?s = [(''sql'', 5)]"
    by (simp add: entries_def levelOf_def)
  with q5 have query: "toWeightedQuery_spec (entries ?s) = ''sql sql sql sql sql''"
    by (simp only:)
  have valid: "\<forall>k \<in> set (selectedSkills ?s). validLength (experience k)"
    using five by simp
  have invalid: "\<exists>k \<in> set (selectedSkills ?t). \<not> validLength (experience k)"
    using half by simp
  from query_total_within_limits [of "Num 5" 5 ?s 536870888] valid query
  have fits: "updateInterestsInputWithin 536870888 ?s = (None, ?s\<lparr>interests := ''sql sql sql sql sql''\<rparr>)"
    by simp
  from query_total_within_limits [of "Num 5" 5 ?s 10] valid query
  have long: "updateInterestsInputWithin 10 ?s = (Some RangeError, ?s)"
    by simp
  from query_total_within_limits [of "Num 5" 5 ?t 536870888] invalid
  have thrown: "updateInterestsInputWithin 536870888 ?t = (Some RangeError, ?t)"
    by blast
  from five half fits long thrown show ?thesis
    by (simp add: r5)
qed

subsection \<open>updateSkillExperience stores what it is given\<close>

lemma assignExperience_first:
  "find (\<lambda>k. name k = n) ks = Some e \<Longrightarrow>
     \<exists>pre post. ks = pre @ e # post \<and> (\<forall>k \<in> set pre. name k \<noteq> n) \<and> name e = n
       \<and> assignExperience n v ks = pre @ e\<lparr>experience := v\<rparr> # post"
proof (induction ks)
  case Nil
  then show ?case by simp
next
  case (Cons k ks)
  show ?case
  proof (cases "name k = n")
    case True
    with Cons.prems have "k = e" by simp
    with True have "k # ks = [] @ e # ks \<and> (\<forall>k \<in> set []. name k \<noteq> n) \<and> name e = n
        \<and> assignExperience n v (k # ks) = [] @ e\<lparr>experience := v\<rparr> # ks"
      by simp
    then show ?thesis by blast
  next
    case False
    with Cons.prems have "find (\<lambda>k. name k = n) ks = Some e" by simp
    from Cons.IH [OF this] obtain pre post where
      ks: "ks = pre @ e # post" and pre: "\<forall>k \<in> set pre. name k \<noteq> n" and e: "name e = n"
      and upd: "assignExperience n v ks = pre @ e\<lparr>experience := v\<rparr> # post"
      by blast
    from False ks pre e upd
    have "k # ks = (k # pre) @ e # post \<and> (\<forall>j \<in> set (k # pre). name j \<noteq> n) \<and> name e = n
        \<and> assignExperience n v (k # ks) = (k # pre) @ e\<lparr>experience := v\<rparr> # post"
      by simp
    then show ?thesis by blast
  qed
qed

lemma names_assignExperience: "map name (assignExperience n v ks) = map name ks"
  by (induction ks) simp_all

text \<open>
  C1, as the claim has it, fails: with python stored at level 4,
  \<open>updateSkillExperience\<close> given 0 or 6 completes with no error and stores 0 or 6, and
  given a string that is no number it throws only when the query is rebuilt, after NaN
  has been stored.
\<close>

theorem setLevel_validation_counterexample:
  "updateSkillExperience ''python'' ''0''
       \<lparr>selectedSkills = [\<lparr>name = ''python'', experience = Num 4\<rparr>],
        interests = ''python python python python''\<rparr>
     = (None, \<lparr>selectedSkills = [\<lparr>name = ''python'', experience = Num 0\<rparr>], interests = []\<rparr>)
   \<and> updateSkillExperience ''python'' ''6''
       \<lparr>selectedSkills = [\<lparr>name = ''python'', experience = Num 4\<rparr>],
        interests = ''python python python python''\<rparr>
     = (None, \<lparr>selectedSkills = [\<lparr>name = ''python'', experience = Num 6\<rparr>],
               interests = ''python python python python python python''\<rparr>)
   \<and> updateSkillExperience ''python'' ''high''
       \<lparr>selectedSkills = [\<lparr>name = ''python'', experience = Num 4\<rparr>],
        interests = ''python python python python''\<rparr>
     = (Some RangeError, \<lparr>selectedSkills = [\<lparr>name = ''python'', experience = NaN\<rparr>],
                          interests = ''python python python python''\<rparr>)"
  by (simp add: updateSkillExperience_def updateInterestsInput_def weightedSkills_def
      weightedSkill_def join_def eval_nat_numeral parseInt_eval)

text \<open>
  C1, amended. \<open>updateSkillExperience\<close> does not validate the level against the
  levels 1 to 5. For a stored entry and a level that \<open>parseInt\<close> reads as an integer
  from 0 to \<open>2^32 - 1\<close>, as it reads 0 and 6, it reports no error, writes that integer
  into the first entry of that name, leaves the other entries as they are and stores
  the weighted query of the new entries, provided every other stored level is such an
  integer too and that query is no longer than the engine's longest string. For a
  level that \<open>parseInt\<close> does not read as such an integer (a string that is no number,
  a negative number, \<open>2^32\<close> or more) it raises a RangeError to its caller.
\<close>

theorem setLevel_stores_unvalidated:
  assumes "find (\<lambda>k. name k = n) (selectedSkills s) = Some e"
  shows "parseInt ''0'' = Num 0 \<and> validLength (Num 0)
         \<and> parseInt ''6'' = Num 6 \<and> validLength (Num 6)
         \<and> (\<exists>pre post. selectedSkills s = pre @ e # post \<and> (\<forall>k \<in> set pre. name k \<noteq> n)
              \<and> name e = n
              \<and> (validLength (parseInt v)
                   \<and> (\<forall>k \<in> set (pre @ post). validLength (experience k))
                   \<and> length (toWeightedQuery_spec (map (\<lambda>k. (name k, levelOf k))
                               (pre @ e\<lparr>experience := parseInt v\<rparr> # post))) \<le> L
                 \<longrightarrow> updateSkillExperienceWithin L n v s =
                       (None,
                        \<lparr>selectedSkills = pre @ e\<lparr>experience := parseInt v\<rparr> # post,
                         interests = toWeightedQuery_spec (map (\<lambda>k. (name k, levelOf k))
                                       (pre @ e\<lparr>experience := parseInt v\<rparr> # post))\<rparr>)))
         \<and> (\<not> validLength (parseInt v) \<longrightarrow>
              fst (updateSkillExperienceWithin L n v s) = Some RangeError)"
proof -
  have levels: "parseInt ''0'' = Num 0 \<and> validLength (Num 0)
      \<and> parseInt ''6'' = Num 6 \<and> validLength (Num 6)"
    by (simp add: parseInt_eval validLength_def)
  from assignExperience_first [OF assms, of "parseInt v"] obtain pre post where
    ks: "selectedSkills s = pre @ e # post" and pre: "\<forall>k \<in> set pre. name k \<noteq> n"
    and e: "name e = n"
    and upd: "assignExperience n (parseInt v) (selectedSkills s)
              = pre @ e\<lparr>experience := parseInt v\<rparr> # post"
    by blast
  let ?ks = "pre @ e\<lparr>experience := parseInt v\<rparr> # post"
  let ?s = "s\<lparr>selectedSkills := ?ks\<rparr>"
  let ?q = "toWeightedQuery_spec (map (\<lambda>k. (name k, levelOf k)) ?ks)"
  have call: "updateSkillExperienceWithin L n v s = updateInterestsInputWithin L ?s"
    using assms upd by (simp add: updateSkillExperienceWithin_def)
  have stored: "validLength (parseInt v) \<and> (\<forall>k \<in> set (pre @ post). validLength (experience k))
      \<and> length ?q \<le> L
      \<longrightarrow> updateSkillExperienceWithin L n v s = (None, \<lparr>selectedSkills = ?ks, interests = ?q\<rparr>)"
  proof
    assume ok: "validLength (parseInt v) \<and> (\<forall>k \<in> set (pre @ post). validLength (experience k))
      \<and> length ?q \<le> L"
    then have valid: "\<forall>k \<in> set (selectedSkills ?s). validLength (experience k)" by auto
    from ok have fits: "length (toWeightedQuery_spec (entries ?s)) \<le> L"
      by (simp add: entries_def)
    from updateInterestsInputWithin_fits [OF valid fits]
    show "updateSkillExperienceWithin L n v s = (None, \<lparr>selectedSkills = ?ks, interests = ?q\<rparr>)"
      by (simp add: call entries_def)
  qed
  have thrown: "\<not> validLength (parseInt v) \<longrightarrow>
      fst (updateSkillExperienceWithin L n v s) = Some RangeError"
  proof
    assume "\<not> validLength (parseInt v)"
    then have "\<exists>k \<in> set (selectedSkills ?s). \<not> validLength (experience k)" by auto
    from updateInterestsInputWithin_invalid [OF this]
    show "fst (updateSkillExperienceWithin L n v s) = Some RangeError"
      by (simp add: call)
  qed
  from ks pre e stored have "\<exists>pre post. selectedSkills s = pre @ e # post
      \<and> (\<forall>k \<in> set pre. name k \<noteq> n) \<and> name e = n
      \<and> (validLength (parseInt v)
           \<and> (\<forall>k \<in> set (pre @ post). validLength (experience k))
           \<and> length (toWeightedQuery_spec (map (\<lambda>k. (name k, levelOf k))
                       (pre @ e\<lparr>experience := parseInt v\<rparr> # post))) \<le> L
         \<longrightarrow> updateSkillExperienceWithin L n v s =
               (None,
                \<lparr>selectedSkills = pre @ e\<lparr>experience := parseInt v\<rparr> # post,
                 interests = toWeightedQuery_spec (map (\<lambda>k. (name k, levelOf k))
                               (pre @ e\<lparr>experience := parseInt v\<rparr> # post))\<rparr>))"
    by blast
  with levels thrown show ?thesis by blast
qed

theorem setLevel_stores_unvalidated_witness:
  "find (\<lambda>k. name k = ''sql'')
      [\<lparr>name = ''python'', experience = Num 4\<rparr>, \<lparr>name = ''sql'', experience = Num 2\<rparr>]
     = Some \<lparr>name = ''sql'', experience = Num 2\<rparr>
   \<and> parseInt ''6'' = Num 6 \<and> validLength (Num 6)
   \<and> fst (updateSkillExperienceWithin 536870888 ''sql'' ''6''
              \<lparr>selectedSkills = [\<lparr>name = ''python'', experience = Num 4\<rparr>,
                                  \<lparr>name = ''sql'', experience = Num 2\<rparr>],
               interests = ''python python python python, sql sql''\<rparr>) = None
   \<and> parseInt ''high'' = NaN \<and> \<not> validLength NaN
   \<and> fst (updateSkillExperienceWithin 536870888 ''sql'' ''high''
              \<lparr>selectedSkills = [\<lparr>name = ''python'', experience = Num 4\<rparr>,
                                  \<lparr>name = ''sql'', experience = Num 2\<rparr>],
               interests = ''python python python python, sql sql''\<rparr>) = Some RangeError"
proof -
  let ?p = "\<lparr>name = ''python'', experience = Num 4\<rparr>"
  let ?q = "\<lparr>name = ''sql'', experience = Num 2\<rparr>"
  let ?s = "\<lparr>selectedSkills = [?p, ?q], interests = ''python python python python, sql sql''\<rparr>"
  have found: "find (\<lambda>k. name k = ''sql'') (selectedSkills ?s) = Some ?q"
    by simp
  have six: "parseInt ''6'' = Num 6" and high: "parseInt ''high'' = NaN"
    by (simp_all add: parseInt_eval)
  have valid6: "validLength (Num 6)" and invalid: "\<not> validLength NaN"
    by (simp_all add: validLength_def)
  note inst = setLevel_stores_unvalidated [OF found, of _ 536870888]
  from inst [of "''high''"] high invalid
  have thrown: "fst (updateSkillExperienceWithin 536870888 ''sql'' ''high'' ?s) = Some RangeError"
    by simp
  from inst [of "''6''"] obtain pre post where
    ks: "selectedSkills ?s = pre @ ?q # post"
    and pre: "\<forall>k \<in> set pre. name k \<noteq> ''sql''"
    and res: "validLength (parseInt ''6'')
         \<and> (\<forall>k \<in> set (pre @ post). validLength (experience k))
         \<and> length (toWeightedQuery_spec (map (\<lambda>k. (name k, levelOf k))
                     (pre @ ?q\<lparr>experience := parseInt ''6''\<rparr> # post))) \<le> 536870888
         \<longrightarrow> updateSkillExperienceWithin 536870888 ''sql'' ''6'' ?s =
               (None,
                \<lparr>selectedSkills = pre @ ?q\<lparr>experience := parseInt ''6''\<rparr> # post,
                 interests = toWeightedQuery_spec (map (\<lambda>k. (name k, levelOf k))
                               (pre @ ?q\<lparr>experience := parseInt ''6''\<rparr> # post))\<rparr>)"
    by blast
  from ks pre have shape: "pre = [?p] \<and> post = []"
    by (cases pre; cases "tl pre") (auto simp: Cons_eq_append_conv)
  then have others: "\<forall>k \<in> set (pre @ post). validLength (experience k)"
    by (simp add: validLength_def)
  have query: "toWeightedQuery_spec [(''python'', 4), (''sql'', 6)]
      = ''python python python python, sql sql sql sql sql sql''"
    by (simp add: numeral_eq_Suc)
  from shape have new: "map (\<lambda>k. (name k, levelOf k))
      (pre @ ?q\<lparr>experience := parseInt ''6''\<rparr> # post) = [(''python'', 4), (''sql'', 6)]"
    by (simp add: six levelOf_def)
  have "length (toWeightedQuery_spec (map (\<lambda>k. (name k, levelOf k))
                     (pre @ ?q\<lparr>experience := parseInt ''6''\<rparr> # post))) \<le> 536870888"
    unfolding new query by simp
  with res others six valid6
  have "fst (updateSkillExperienceWithin 536870888 ''sql'' ''6'' ?s) = None"
    by simp
  with found six high valid6 invalid thrown show ?thesis by simp
qed

subsection \<open>Adding\<close>

lemma addSkill_present:
  "\<exists>k \<in> set (selectedSkills s). name k = n \<Longrightarrow> addSkill n l s = (None, s)"
  by (simp add: addSkill_def)

lemma addSkill_absent:
  "\<not> (\<exists>k \<in> set (selectedSkills s). name k = n) \<Longrightarrow>
     selectedSkills (snd (addSkill n l s))
       = selectedSkills s @ [\<lparr>name = n, experience = (case l of None \<Rightarrow> Num 3 | Some v \<Rightarrow> v)\<rparr>]"
  by (simp add: addSkill_def updateInterestsInput_skills)

text \<open>
  C4. A click on the add button with an empty skill name changes nothing and reports
  nothing, whatever the level; so does a click, and a call of \<open>addSkill\<close>, with a name
  that an entry already has. With any other name the new entry, at the level given,
  is appended at the end of the collection.
\<close>

theorem add_noop_or_append:
  "addSkillClick [] v s = (None, s)
   \<and> (hasSkill n s \<longrightarrow> addSkillClick n v s = (None, s) \<and> addSkill n l s = (None, s))
   \<and> (n \<noteq> [] \<and> \<not> hasSkill n s \<longrightarrow>
        selectedSkills (snd (addSkillClick n v s))
          = selectedSkills s @ [\<lparr>name = n, experience = parseInt v\<rparr>])
   \<and> (\<not> hasSkill n s \<longrightarrow>
        selectedSkills (snd (addSkill n l s))
          = selectedSkills s @ [\<lparr>name = n, experience = (case l of None \<Rightarrow> Num 3 | Some x \<Rightarrow> x)\<rparr>])"
proof (intro conjI impI)
  show "addSkillClick [] v s = (None, s)"
    by (simp add: addSkillClick_def)
next
  assume "hasSkill n s"
  then have present: "\<exists>k \<in> set (selectedSkills s). name k = n"
    by (auto simp: hasSkill_def)
  show "addSkill n l s = (None, s)"
    using present by (rule addSkill_present)
  show "addSkillClick n v s = (None, s)"
    using present by (simp add: addSkillClick_def addSkill_present)
next
  assume "n \<noteq> [] \<and> \<not> hasSkill n s"
  then have "n \<noteq> []" and absent: "\<not> (\<exists>k \<in> set (selectedSkills s). name k = n)"
    by (auto simp: hasSkill_def)
  then show "selectedSkills (snd (addSkillClick n v s))
      = selectedSkills s @ [\<lparr>name = n, experience = parseInt v\<rparr>]"
    by (simp add: addSkillClick_def addSkill_absent)
next
  assume "\<not> hasSkill n s"
  then have "\<not> (\<exists>k \<in> set (selectedSkills s). name k = n)"
    by (auto simp: hasSkill_def)
  then show "selectedSkills (snd (addSkill n l s))
      = selectedSkills s @ [\<lparr>name = n, experience = (case l of None \<Rightarrow> Num 3 | Some x \<Rightarrow> x)\<rparr>]"
    by (rule addSkill_absent)
qed

theorem add_noop_or_append_witness:
  "hasSkill ''sql'' \<lparr>selectedSkills = [\<lparr>name = ''sql'', experience = Num 2\<rparr>], interests = ''sql sql''\<rparr>
   \<and> addSkillClick ''sql'' ''5''
        \<lparr>selectedSkills = [\<lparr>name = ''sql'', experience = Num 2\<rparr>], interests = ''sql sql''\<rparr>
      = (None, \<lparr>selectedSkills = [\<lparr>name = ''sql'', experience = Num 2\<rparr>], interests = ''sql sql''\<rparr>)
   \<and> ''java'' \<noteq> []
   \<and> \<not> hasSkill ''java''
        \<lparr>selectedSkills = [\<lparr>name = ''sql'', experience = Num 2\<rparr>], interests = ''sql sql''\<rparr>
   \<and> selectedSkills (snd (addSkillClick ''java'' ''5''
        \<lparr>selectedSkills = [\<lparr>name = ''sql'', experience = Num 2\<rparr>], interests = ''sql sql''\<rparr>))
      = [\<lparr>name = ''sql'', experience = Num 2\<rparr>, \<lparr>name = ''java'', experience = Num 5\<rparr>]"
proof -
  let ?s = "\<lparr>selectedSkills = [\<lparr>name = ''sql'', experience = Num 2\<rparr>], interests = ''sql sql''\<rparr>"
  have five: "parseInt ''5'' = Num 5"
    by (simp add: parseInt_eval)
  have has: "hasSkill ''sql'' ?s" and hasnt: "\<not> hasSkill ''java'' ?s"
    by (simp_all add: hasSkill_def)
  from add_noop_or_append [of "''5''" ?s "''sql''" None] has
  have "addSkillClick ''sql'' ''5'' ?s = (None, ?s)" by blast
  moreover from add_noop_or_append [of "''5''" ?s "''java''" None] hasnt
  have "selectedSkills (snd (addSkillClick ''java'' ''5'' ?s))
      = selectedSkills ?s @ [\<lparr>name = ''java'', experience = parseInt ''5''\<rparr>]" by blast
  ultimately show ?thesis using has hasnt by (simp add: five)
qed

lemma addSkill_makes_present:
  "\<exists>k \<in> set (selectedSkills (snd (addSkill n l s))). name k = n"
proof (cases "\<exists>k \<in> set (selectedSkills s). name k = n")
  case True
  then show ?thesis by (simp add: addSkill_present)
next
  case False
  then show ?thesis by (simp add: addSkill_absent)
qed

lemma one_entry_of_name:
  "distinct (map name ks) \<Longrightarrow> n \<in> set (map name ks) \<Longrightarrow>
     length (filter (\<lambda>k. name k = n) ks) = 1"
proof (induction ks)
  case Nil
  then show ?case by simp
next
  case (Cons k ks)
  show ?case
  proof (cases "name k = n")
    case True
    with Cons.prems have "n \<notin> name ` set ks" by simp
    then have "\<forall>j \<in> set ks. name j \<noteq> n" by blast
    then have "filter (\<lambda>k. name k = n) ks = []" by (simp add: filter_empty_conv)
    with True show ?thesis by simp
  next
    case False
    with Cons show ?thesis by simp
  qed
qed

lemma addSkill_unique: "uniqueNames s \<Longrightarrow> uniqueNames (snd (addSkill n l s))"
proof (cases "\<exists>k \<in> set (selectedSkills s). name k = n")
  case True
  assume "uniqueNames s"
  with True show ?thesis by (simp add: addSkill_present)
next
  case False
  assume "uniqueNames s"
  with False show ?thesis by (auto simp: uniqueNames_def addSkill_absent)
qed

text \<open>
  C5. Whatever the two levels, the second of two calls of \<open>addSkill\<close> (or of two clicks)
  with the same name changes nothing and reports nothing. Where names are unique there
  is then exactly one entry of that name, and where the name was not yet chosen that
  entry has the level of the first call.
\<close>

theorem add_twice_keeps_first:
  "addSkill n l2 (snd (addSkill n l1 s)) = (None, snd (addSkill n l1 s))
   \<and> addSkillClick n v2 (snd (addSkillClick n v1 s)) = (None, snd (addSkillClick n v1 s))
   \<and> (uniqueNames s \<longrightarrow>
        length (filter (\<lambda>k. name k = n)
          (selectedSkills (snd (addSkill n l2 (snd (addSkill n l1 s)))))) = 1)
   \<and> (\<not> hasSkill n s \<longrightarrow>
        filter (\<lambda>k. name k = n) (selectedSkills (snd (addSkill n l2 (snd (addSkill n l1 s)))))
          = [\<lparr>name = n, experience = (case l1 of None \<Rightarrow> Num 3 | Some x \<Rightarrow> x)\<rparr>])"
proof (intro conjI impI)
  show second: "addSkill n l2 (snd (addSkill n l1 s)) = (None, snd (addSkill n l1 s))"
    using addSkill_makes_present [of n l1 s] by (rule addSkill_present)
  show "addSkillClick n v2 (snd (addSkillClick n v1 s)) = (None, snd (addSkillClick n v1 s))"
  proof (cases "n = []")
    case True
    then show ?thesis by (simp add: addSkillClick_def)
  next
    case False
    then show ?thesis
      using addSkill_makes_present [of n "Some (parseInt v1)" s]
      by (simp add: addSkillClick_def addSkill_present)
  qed
  {
    assume "uniqueNames s"
    then have "uniqueNames (snd (addSkill n l1 s))" by (rule addSkill_unique)
    moreover have "n \<in> set (map name (selectedSkills (snd (addSkill n l1 s))))"
      using addSkill_makes_present [of n l1 s] by auto
    ultimately have "length (filter (\<lambda>k. name k = n) (selectedSkills (snd (addSkill n l1 s)))) = 1"
      unfolding uniqueNames_def by (rule one_entry_of_name)
    then show "length (filter (\<lambda>k. name k = n)
        (selectedSkills (snd (addSkill n l2 (snd (addSkill n l1 s)))))) = 1"
      by (simp add: second)
  }
  {
    assume "\<not> hasSkill n s"
    then have absent: "\<not> (\<exists>k \<in> set (selectedSkills s). name k = n)"
      by (auto simp: hasSkill_def)
    then have "filter (\<lambda>k. name k = n) (selectedSkills s) = []"
      by (simp add: filter_empty_conv)
    with absent show "filter (\<lambda>k. name k = n)
        (selectedSkills (snd (addSkill n l2 (snd (addSkill n l1 s)))))
        = [\<lparr>name = n, experience = (case l1 of None \<Rightarrow> Num 3 | Some x \<Rightarrow> x)\<rparr>]"
      by (simp add: second addSkill_absent)
  }
qed

theorem add_twice_keeps_first_witness:
  "uniqueNames initial \<and> \<not> hasSkill ''sql'' initial
   \<and> length (filter (\<lambda>k. name k = ''sql'')
        (selectedSkills (snd (addSkill ''sql'' (Some (Num 5))
           (snd (addSkill ''sql'' (Some (Num 2)) initial)))))) = 1
   \<and> filter (\<lambda>k. name k = ''sql'')
        (selectedSkills (snd (addSkill ''sql'' (Some (Num 5))
           (snd (addSkill ''sql'' (Some (Num 2)) initial)))))
      = [\<lparr>name = ''sql'', experience = Num 2\<rparr>]"
proof -
  note twice = add_twice_keeps_first [of "''sql''" "Some (Num 5)" "Some (Num 2)" initial]
  have u: "uniqueNames initial" and h: "\<not> hasSkill ''sql'' initial"
    by (simp_all add: uniqueNames_def hasSkill_def initial_def)
  from twice u
  have one: "length (filter (\<lambda>k. name k = ''sql'')
        (selectedSkills (snd (addSkill ''sql'' (Some (Num 5))
           (snd (addSkill ''sql'' (Some (Num 2)) initial)))))) = 1"
    by blast
  from twice h
  have "filter (\<lambda>k. name k = ''sql'')
        (selectedSkills (snd (addSkill ''sql'' (Some (Num 5))
           (snd (addSkill ''sql'' (Some (Num 2)) initial)))))
      = [\<lparr>name = ''sql'', experience = (case Some (Num 2) of None \<Rightarrow> Num 3 | Some x \<Rightarrow> x)\<rparr>]"
    by blast
  with u h one show ?thesis by simp
qed

subsection \<open>Removing\<close>

lemma removeSkill_skills:
  "selectedSkills (snd (removeSkill n s)) = filter (\<lambda>k. name k \<noteq> n) (selectedSkills s)"
  by (simp add: removeSkill_def updateInterestsInput_skills)

text \<open>
  C6. After \<open>removeSkill\<close> and then \<open>addSkill\<close> with the same name and a level, the
  collection is the entries of the other names, in their order, followed by the new
  entry: it is the only entry of that name, it has the level given, and it is last.
\<close>

theorem remove_then_add_at_end:
  "hasSkill n s \<longrightarrow>
     selectedSkills (snd (addSkill n (Some l) (snd (removeSkill n s))))
       = filter (\<lambda>k. name k \<noteq> n) (selectedSkills s) @ [\<lparr>name = n, experience = l\<rparr>]
     \<and> filter (\<lambda>k. name k = n) (selectedSkills (snd (addSkill n (Some l) (snd (removeSkill n s)))))
       = [\<lparr>name = n, experience = l\<rparr>]
     \<and> last (selectedSkills (snd (addSkill n (Some l) (snd (removeSkill n s)))))
       = \<lparr>name = n, experience = l\<rparr>"
proof
  have "\<not> (\<exists>k \<in> set (selectedSkills (snd (removeSkill n s))). name k = n)"
    by (simp add: removeSkill_skills)
  from addSkill_absent [OF this, of "Some l"]
  have all: "selectedSkills (snd (addSkill n (Some l) (snd (removeSkill n s))))
      = filter (\<lambda>k. name k \<noteq> n) (selectedSkills s) @ [\<lparr>name = n, experience = l\<rparr>]"
    by (simp add: removeSkill_skills)
  have "filter (\<lambda>k. name k = n) (filter (\<lambda>k. name k \<noteq> n) (selectedSkills s)) = []"
    by (simp add: filter_empty_conv)
  with all show "selectedSkills (snd (addSkill n (Some l) (snd (removeSkill n s))))
       = filter (\<lambda>k. name k \<noteq> n) (selectedSkills s) @ [\<lparr>name = n, experience = l\<rparr>]
     \<and> filter (\<lambda>k. name k = n) (selectedSkills (snd (addSkill n (Some l) (snd (removeSkill n s)))))
       = [\<lparr>name = n, experience = l\<rparr>]
     \<and> last (selectedSkills (snd (addSkill n (Some l) (snd (removeSkill n s)))))
       = \<lparr>name = n, experience = l\<rparr>"
    by simp
qed

theorem remove_then_add_at_end_witness:
  "hasSkill ''sql''
     \<lparr>selectedSkills = [\<lparr>name = ''sql'', experience = Num 2\<rparr>, \<lparr>name = ''java'', experience = Num 1\<rparr>],
      interests = ''sql sql, java''\<rparr>
   \<and> selectedSkills (snd (addSkill ''sql'' (Some (Num 5)) (snd (removeSkill ''sql''
       \<lparr>selectedSkills = [\<lparr>name = ''sql'', experience = Num 2\<rparr>, \<lparr>name = ''java'', experience = Num 1\<rparr>],
        interests = ''sql sql, java''\<rparr>))))
     = [\<lparr>name = ''java'', experience = Num 1\<rparr>, \<lparr>name = ''sql'', experience = Num 5\<rparr>]"
  using remove_then_add_at_end
    [of "''sql''"
        "\<lparr>selectedSkills = [\<lparr>name = ''sql'', experience = Num 2\<rparr>, \<lparr>name = ''java'', experience = Num 1\<rparr>],
          interests = ''sql sql, java''\<rparr>" "Num 5"]
  by (simp add: hasSkill_def)

lemma count_other_names:
  "name k \<noteq> n \<Longrightarrow> count_list (filter (\<lambda>j. name j \<noteq> n) ks) k = count_list ks k"
  by (induction ks) auto

text \<open>
  C9. \<open>removeSkill\<close> leaves exactly the entries of the other names: no entry of the
  name removed remains, every entry of another name is there as often as before with
  its level, and the entries keep their order. When no entry has the name, the
  collection is as it was: the call only rebuilds the interest string, and where that
  string already was the query of the collection the whole state is as it was.
\<close>

theorem remove_frame:
  "selectedSkills (snd (removeSkill n s)) = filter (\<lambda>k. name k \<noteq> n) (selectedSkills s)
   \<and> \<not> hasSkill n (snd (removeSkill n s))
   \<and> (\<forall>k. name k \<noteq> n \<longrightarrow>
         count_list (selectedSkills (snd (removeSkill n s))) k = count_list (selectedSkills s) k)
   \<and> subseq (selectedSkills (snd (removeSkill n s))) (selectedSkills s)
   \<and> (\<not> hasSkill n s \<longrightarrow>
         selectedSkills (snd (removeSkill n s)) = selectedSkills s
         \<and> removeSkill n s = updateInterestsInput s)
   \<and> (\<not> hasSkill n s \<and> weightedSkills (selectedSkills s) = Inr (interests s) \<longrightarrow>
         removeSkill n s = (None, s))"
proof (intro conjI impI allI)
  show skills: "selectedSkills (snd (removeSkill n s)) = filter (\<lambda>k. name k \<noteq> n) (selectedSkills s)"
    by (rule removeSkill_skills)
  show "\<not> hasSkill n (snd (removeSkill n s))"
    by (auto simp: hasSkill_def skills)
  show "subseq (selectedSkills (snd (removeSkill n s))) (selectedSkills s)"
    by (simp add: skills)
  {
    fix k :: skill
    assume "name k \<noteq> n"
    then show "count_list (selectedSkills (snd (removeSkill n s))) k = count_list (selectedSkills s) k"
      by (simp add: skills count_other_names)
  }
  {
    assume "\<not> hasSkill n s"
    then have same: "filter (\<lambda>k. name k \<noteq> n) (selectedSkills s) = selectedSkills s"
      by (auto simp: hasSkill_def filter_id_conv)
    then show "selectedSkills (snd (removeSkill n s)) = selectedSkills s"
      by (simp add: skills)
    from same show "removeSkill n s = updateInterestsInput s"
      by (simp add: removeSkill_def)
  }
  {
    assume "\<not> hasSkill n s \<and> weightedSkills (selectedSkills s) = Inr (interests s)"
    then have same: "filter (\<lambda>k. name k \<noteq> n) (selectedSkills s) = selectedSkills s"
      and synced: "weightedSkills (selectedSkills s) = Inr (interests s)"
      by (auto simp: hasSkill_def filter_id_conv)
    then show "removeSkill n s = (None, s)"
      by (simp add: removeSkill_def updateInterestsInput_def)
  }
qed

theorem remove_frame_witness:
  "name \<lparr>name = ''java'', experience = Num 1\<rparr> \<noteq> ''sql''
   \<and> count_list (selectedSkills (snd (removeSkill ''sql''
        \<lparr>selectedSkills = [\<lparr>name = ''sql'', experience = Num 2\<rparr>, \<lparr>name = ''java'', experience = Num 1\<rparr>],
         interests = ''sql sql, java''\<rparr>))) \<lparr>name = ''java'', experience = Num 1\<rparr> = 1
   \<and> \<not> hasSkill ''go''
        \<lparr>selectedSkills = [\<lparr>name = ''sql'', experience = Num 2\<rparr>, \<lparr>name = ''java'', experience = Num 1\<rparr>],
         interests = ''sql sql, java''\<rparr>
   \<and> weightedSkills [\<lparr>name = ''sql'', experience = Num 2\<rparr>, \<lparr>name = ''java'', experience = Num 1\<rparr>]
      = Inr ''sql sql, java''
   \<and> removeSkill ''go''
        \<lparr>selectedSkills = [\<lparr>name = ''sql'', experience = Num 2\<rparr>, \<lparr>name = ''java'', experience = Num 1\<rparr>],
         interests = ''sql sql, java''\<rparr>
      = (None,
         \<lparr>selectedSkills = [\<lparr>name = ''sql'', experience = Num 2\<rparr>, \<lparr>name = ''java'', experience = Num 1\<rparr>],
          interests = ''sql sql, java''\<rparr>)"
proof -
  let ?s = "\<lparr>selectedSkills = [\<lparr>name = ''sql'', experience = Num 2\<rparr>,
                              \<lparr>name = ''java'', experience = Num 1\<rparr>],
             interests = ''sql sql, java''\<rparr>"
  let ?j = "\<lparr>name = ''java'', experience = Num 1\<rparr>"
  have other: "name ?j \<noteq> ''sql''" by simp
  have absent: "\<not> hasSkill ''go'' ?s" by (simp add: hasSkill_def)
  have synced: "weightedSkills (selectedSkills ?s) = Inr (interests ?s)"
    by (simp add: weightedSkills_def weightedSkill_def join_def eval_nat_numeral)
  from remove_frame [of "''sql''" ?s] other
  have "count_list (selectedSkills (snd (removeSkill ''sql'' ?s))) ?j = count_list (selectedSkills ?s) ?j"
    by blast
  moreover from remove_frame [of "''go''" ?s] absent synced
  have "removeSkill ''go'' ?s = (None, ?s)" by blast
  ultimately show ?thesis using other absent synced by simp
qed

subsection \<open>One entry for a name\<close>

lemma removeSkill_unique: "uniqueNames s \<Longrightarrow> uniqueNames (snd (removeSkill n s))"
  by (simp add: uniqueNames_def removeSkill_skills distinct_map_filter)

lemma updateSkillExperience_names:
  "map name (selectedSkills (snd (updateSkillExperience n v s))) = map name (selectedSkills s)"
  by (simp add: updateSkillExperience_def updateInterestsInput_skills names_assignExperience
      split: option.splits)

lemma updateSkillExperience_unique:
  "uniqueNames s \<Longrightarrow> uniqueNames (snd (updateSkillExperience n v s))"
  by (simp add: uniqueNames_def updateSkillExperience_names)

lemma addSkillClick_unique: "uniqueNames s \<Longrightarrow> uniqueNames (snd (addSkillClick n v s))"
  by (simp add: addSkillClick_def addSkill_unique)

lemma resetClick_unique: "uniqueNames (resetClick s)"
  by (simp add: uniqueNames_def resetClick_def form_reset_def)

lemma reachable_unique: "reachable s \<Longrightarrow> uniqueNames s"
proof (induction rule: reachable.induct)
  case (start s)
  then show ?case by (simp add: uniqueNames_def)
next
  case (click s n v)
  then show ?case by (simp add: addSkillClick_unique)
next
  case (add s n l)
  then show ?case by (simp add: addSkill_unique)
next
  case (remove s n)
  then show ?case by (simp add: removeSkill_unique)
next
  case (update s n v)
  then show ?case by (simp add: updateSkillExperience_unique)
next
  case (reset s)
  show ?case by (rule resetClick_unique)
qed

text \<open>
  C8. In every state that the handlers can bring about from a page with no skill
  chosen, no two entries have the same name; and each of the operations (the click on
  the add button and \<open>addSkill\<close>, \<open>removeSkill\<close>, \<open>updateSkillExperience\<close>, the reset
  button) takes a state with that property to a state with it, also when it throws.
\<close>

theorem one_entry_per_name:
  "(reachable s \<longrightarrow> uniqueNames s)
   \<and> (uniqueNames s \<longrightarrow>
        uniqueNames (snd (addSkillClick n v s))
        \<and> uniqueNames (snd (addSkill n l s))
        \<and> uniqueNames (snd (removeSkill n s))
        \<and> uniqueNames (snd (updateSkillExperience n v s))
        \<and> uniqueNames (resetClick s))
   \<and> (uniqueNames s \<longleftrightarrow> distinct (map name (selectedSkills s)))"
  by (simp add: reachable_unique addSkillClick_unique addSkill_unique removeSkill_unique
      updateSkillExperience_unique resetClick_unique uniqueNames_def [symmetric])

theorem one_entry_per_name_witness:
  "reachable (snd (addSkill ''sql'' None initial))
   \<and> uniqueNames (snd (addSkill ''sql'' None initial))
   \<and> uniqueNames (snd (updateSkillExperience ''sql'' ''0'' (snd (addSkill ''sql'' None initial))))"
proof -
  have r: "reachable (snd (addSkill ''sql'' None initial))"
    by (rule reachable.add) (simp add: reachable.start initial_def)
  from one_entry_per_name [of "snd (addSkill ''sql'' None initial)" "''sql''" "''0''" None] r
  show ?thesis by blast
qed

subsection \<open>Resetting and submitting\<close>

text \<open>
  C3. The reset button empties the collection, and the query of the emptied
  collection is the empty string. The handler does not rebuild the interest string,
  though, and the reset of the form leaves the hidden control as it is: after python
  has been added at level 4, a click on the reset button leaves the string of four
  times python in the control, and only a later call of \<open>updateInterestsInput\<close>
  empties it.
\<close>

theorem reset_keeps_interest_string:
  "selectedSkills (resetClick s) = []
   \<and> weightedSkills (selectedSkills (resetClick s)) = Inr []
   \<and> interests (resetClick s) = interests s
   \<and> snd (addSkill ''python'' (Some (Num 4)) initial)
      = \<lparr>selectedSkills = [\<lparr>name = ''python'', experience = Num 4\<rparr>],
         interests = ''python python python python''\<rparr>
   \<and> resetClick (snd (addSkill ''python'' (Some (Num 4)) initial))
      = \<lparr>selectedSkills = [], interests = ''python python python python''\<rparr>
   \<and> updateInterestsInput (resetClick (snd (addSkill ''python'' (Some (Num 4)) initial)))
      = (None, \<lparr>selectedSkills = [], interests = []\<rparr>)"
  by (simp add: resetClick_def form_reset_def addSkill_def initial_def updateInterestsInput_def
      weightedSkills_def weightedSkill_def join_def eval_nat_numeral)

text \<open>
  C7. The query of the empty collection is the empty string. With the collection
  empty the submission shows the error that asks to add at least one skill and builds
  no request, whatever the interest string holds; it builds a request only with an
  entry in the collection and an interest string that is not blank.
\<close>

theorem empty_set_blocks_submission:
  "weightedSkills [] = Inr []
   \<and> (selectedSkills s = [] \<longrightarrow>
        submit kv mt s = ShowError ''Please add at least one skill with experience level''
        \<and> (\<forall>k a i. submit kv mt s \<noteq> Request k a i))
   \<and> (\<exists>pre post. ''Please add at least one skill with experience level''
                    = pre @ ''add at least one skill'' @ post)
   \<and> ((\<exists>k a i. submit kv mt s = Request k a i) \<longleftrightarrow>
        selectedSkills s \<noteq> [] \<and> trim (interests s) \<noteq> [])"
proof (intro conjI impI)
  show "weightedSkills [] = Inr []"
    by (simp add: weightedSkills_def join_def)
  show "\<exists>pre post. ''Please add at least one skill with experience level''
                    = pre @ ''add at least one skill'' @ post"
  proof (intro exI)
    show "''Please add at least one skill with experience level''
          = ''Please '' @ ''add at least one skill'' @ '' with experience level''"
      by simp
  qed
  show "(\<exists>k a i. submit kv mt s = Request k a i) \<longleftrightarrow>
        selectedSkills s \<noteq> [] \<and> trim (interests s) \<noteq> []"
    by (simp add: submit_def Let_def)
  {
    assume "selectedSkills s = []"
    then show "submit kv mt s = ShowError ''Please add at least one skill with experience level''"
      by (simp add: submit_def Let_def)
    then show "\<forall>k a i. submit kv mt s \<noteq> Request k a i"
      by simp
  }
qed

theorem empty_set_blocks_submission_witness:
  "selectedSkills \<lparr>selectedSkills = [], interests = ''python python''\<rparr> = []
   \<and> submit ''5'' None \<lparr>selectedSkills = [], interests = ''python python''\<rparr>
      = ShowError ''Please add at least one skill with experience level''
   \<and> selectedSkills initial = []
   \<and> submit ''5'' (Some ''hybrid'') initial
      = ShowError ''Please add at least one skill with experience level''"
proof -
  have a: "selectedSkills \<lparr>selectedSkills = [], interests = ''python python''\<rparr> = []"
    and b: "selectedSkills initial = []"
    by (simp_all add: initial_def)
  from empty_set_blocks_submission
    [of "\<lparr>selectedSkills = [], interests = ''python python''\<rparr>" "''5''" None] a
  have "submit ''5'' None \<lparr>selectedSkills = [], interests = ''python python''\<rparr>
      = ShowError ''Please add at least one skill with experience level''"
    by blast
  moreover from empty_set_blocks_submission [of initial "''5''" "Some ''hybrid''"] b
  have "submit ''5'' (Some ''hybrid'') initial
      = ShowError ''Please add at least one skill with experience level''"
    by blast
  ultimately show ?thesis using a b by simp
qed

end
